theory Spec2Isabelle
  imports Main "HOL-Library.Word"
begin

section \<open>The lexvec option subsystem (pkg/model/lexvec/options.go)\<close>

text \<open>
  The file holds a string-backed enumeration \<open>RelationType\<close> with its pointer-receiver
  methods \<open>String\<close>, \<open>Set\<close> and \<open>Type\<close>, the package variables with the built-in
  defaults, the struct \<open>Options\<close>, its constructor \<open>DefaultOptions\<close>, the flag binding
  \<open>LoadForCmd\<close> and sixteen functional-option builders.

  Conventions of the embedding:
  \<^item> Go's \<open>int\<close> is the 64-bit machine integer, a \<open>64 word\<close> read with \<open>sint\<close>. The file
    does no arithmetic on it: values are only stored and copied.
  \<^item> A \<open>float64\<close> is its IEEE-754 binary64 bit pattern. The file does no floating-point
    arithmetic either; a literal such as \<open>0.025\<close> stands for the bit pattern of the nearest
    binary64 value.
  \<^item> A Go \<open>string\<close> is a byte sequence, here a \<open>string\<close> (a list of 8-bit characters).
  \<^item> A method with a pointer receiver, and a function that takes \<open>*Options\<close>, mutates the
    pointee. It is modelled by state passing: the pointee goes in and the updated pointee
    comes out, next to the returned value. Pointers are taken to be non-nil.
  \<^item> A returned \<open>error\<close> is an \<open>error option\<close>, \<open>None\<close> being Go's \<open>nil\<close>.
\<close>

subsection \<open>Basic types\<close>

type_synonym go_int = "64 word"

datatype float64 = Float64 (bits: "64 word")

text \<open>\<open>errors.Errorf\<close> builds an error value from its formatted message.\<close>

datatype error = Errorf (message: string)

subsection \<open>RelationType\<close>

type_synonym RelationType = string

definition PPMI :: RelationType where
  "PPMI = ''ppmi''"

definition PMI :: RelationType where
  "PMI = ''pmi''"

definition Collocation :: RelationType where
  "Collocation = ''co''"

definition LogCollocation :: RelationType where
  "LogCollocation = ''logco''"

definition defaultRelationType :: RelationType where
  "defaultRelationType = PPMI"

text \<open>
  \<open>invalidRelationTypeError\<close> formats
  \<open>"invalid relation type: %s not in %s|%s|%s|%s"\<close> with \<open>typ, PPMI, PMI, Collocation,
  LogCollocation\<close>. All five operands are \<open>RelationType\<close> values, not pointers, so the
  pointer-receiver method \<open>String\<close> is not in their method set and \<open>%s\<close> prints the
  underlying string as it is.
\<close>

definition invalidRelationTypeError :: "RelationType \<Rightarrow> error" where
  "invalidRelationTypeError typ =
     Errorf (''invalid relation type: '' @ typ @ '' not in '' @
             PPMI @ ''|'' @ PMI @ ''|'' @ Collocation @ ''|'' @ LogCollocation)"

text \<open>
  \<open>func (t *RelationType) String() string\<close>: the result is the returned string paired
  with the receiver's value after the call.
\<close>

definition RelationType_String :: "RelationType \<Rightarrow> string \<times> RelationType" where
  "RelationType_String t =
     (let t' = (if t = '''' then defaultRelationType else t) in (t', t'))"

text \<open>
  \<open>func (t *RelationType) Set(name string) error\<close>: the result is the returned error
  paired with the receiver's value after the call.
\<close>

definition RelationType_Set :: "string \<Rightarrow> RelationType \<Rightarrow> error option \<times> RelationType" where
  "RelationType_Set name t =
     (let typ = name in
      if typ = PPMI \<or> typ = PMI \<or> typ = Collocation \<or> typ = LogCollocation
      then (None, typ)
      else (Some (invalidRelationTypeError typ), t))"

text \<open>\<open>func (t *RelationType) Type() string\<close> returns \<open>t.String()\<close>.\<close>

definition RelationType_Type :: "RelationType \<Rightarrow> string \<times> RelationType" where
  "RelationType_Type t = RelationType_String t"

subsection \<open>Package variables\<close>

text \<open>
  The built-in defaults are package-level variables (a \<open>var\<close> block, not constants).
  Go evaluates their initialisers once, when the package is initialised at program load;
  \<open>defaultGoroutines\<close> is initialised with the result of \<open>runtime.NumCPU()\<close>, which is the
  argument of \<open>pkg_init\<close>.
\<close>

record pkg_vars =
  defaultBatchSize :: go_int
  defaultDim :: go_int
  defaultDocInMemory :: bool
  defaultGoroutines :: go_int
  defaultInitlr :: float64
  defaultIter :: go_int
  defaultMaxCount :: go_int
  defaultMinCount :: go_int
  defaultNegativeSampleSize :: go_int
  defaultSmooth :: float64
  defaultSubsampleThreshold :: float64
  defaultTheta :: float64
  defaultToLower :: bool
  defaultVerbose :: bool
  defaultWindow :: go_int

definition pkg_init :: "go_int \<Rightarrow> pkg_vars" where
  "pkg_init numCPU =
     \<lparr> defaultBatchSize = 100000,
       defaultDim = 10,
       defaultDocInMemory = False,
       defaultGoroutines = numCPU,
       defaultInitlr = Float64 0x3F9999999999999A,
       defaultIter = 15,
       defaultMaxCount = - 1,
       defaultMinCount = 5,
       defaultNegativeSampleSize = 5,
       defaultSmooth = Float64 0x3FE8000000000000,
       defaultSubsampleThreshold = Float64 0x3F50624DD2F1A9FC,
       defaultTheta = Float64 0x3F1A36E2EB1C432D,
       defaultToLower = False,
       defaultVerbose = False,
       defaultWindow = 5 \<rparr>"

subsection \<open>Options and DefaultOptions\<close>

text \<open>
  The fields of the struct carry the suffix \<open>_f\<close>, since the builders below have the
  names of the fields they set.
\<close>

record Options =
  BatchSize_f :: go_int
  Dim_f :: go_int
  DocInMemory_f :: bool
  Goroutines_f :: go_int
  Initlr_f :: float64
  Iter_f :: go_int
  MaxCount_f :: go_int
  MinCount_f :: go_int
  NegativeSampleSize_f :: go_int
  RelationType_f :: RelationType
  Smooth_f :: float64
  SubsampleThreshold_f :: float64
  Theta_f :: float64
  ToLower_f :: bool
  Verbose_f :: bool
  Window_f :: go_int

text \<open>\<open>DefaultOptions\<close> reads the package variables as they are when it is called.\<close>

definition DefaultOptions :: "pkg_vars \<Rightarrow> Options" where
  "DefaultOptions g =
     \<lparr> BatchSize_f = defaultBatchSize g,
       Dim_f = defaultDim g,
       DocInMemory_f = defaultDocInMemory g,
       Goroutines_f = defaultGoroutines g,
       Initlr_f = defaultInitlr g,
       Iter_f = defaultIter g,
       MaxCount_f = defaultMaxCount g,
       MinCount_f = defaultMinCount g,
       NegativeSampleSize_f = defaultNegativeSampleSize g,
       RelationType_f = defaultRelationType,
       Smooth_f = defaultSmooth g,
       SubsampleThreshold_f = defaultSubsampleThreshold g,
       Theta_f = defaultTheta g,
       ToLower_f = defaultToLower g,
       Verbose_f = defaultVerbose g,
       Window_f = defaultWindow g \<rparr>"

text \<open>The zero value of the struct, \<open>Options{}\<close>.\<close>

definition zero_Options :: Options where
  "zero_Options =
     \<lparr> BatchSize_f = 0, Dim_f = 0, DocInMemory_f = False, Goroutines_f = 0,
       Initlr_f = Float64 0, Iter_f = 0, MaxCount_f = 0, MinCount_f = 0,
       NegativeSampleSize_f = 0, RelationType_f = '''', Smooth_f = Float64 0,
       SubsampleThreshold_f = Float64 0, Theta_f = Float64 0, ToLower_f = False,
       Verbose_f = False, Window_f = 0 \<rparr>"

subsection \<open>The running process\<close>

text \<open>
  A process is the processing-unit count that the host reports now, together with the
  package variables. At program load the variables are initialised from the count reported
  then; afterwards the host may come to report another count (the environment's step
  \<open>host_change\<close>), which touches no package variable. A call of \<open>DefaultOptions\<close> in a
  process reads the package variables only.
\<close>

record process =
  host_cpus :: go_int
  vars :: pkg_vars

definition program_load :: "go_int \<Rightarrow> process" where
  "program_load n = \<lparr> host_cpus = n, vars = pkg_init n \<rparr>"

definition host_change :: "go_int \<Rightarrow> process \<Rightarrow> process" where
  "host_change n p = p\<lparr> host_cpus := n \<rparr>"

definition call_DefaultOptions :: "process \<Rightarrow> Options" where
  "call_DefaultOptions p = DefaultOptions (vars p)"

subsection \<open>Functional option builders\<close>

text \<open>
  \<open>type ModelOption func(*Options)\<close>: a deferred mutation of the pointee, here a function
  from the pointee before to the pointee after.
\<close>

type_synonym ModelOption = "Options \<Rightarrow> Options"

definition BatchSize :: "go_int \<Rightarrow> ModelOption" where
  "BatchSize v = (\<lambda>opts. opts\<lparr> BatchSize_f := v \<rparr>)"

definition DocInMemory :: ModelOption where
  "DocInMemory = (\<lambda>opts. opts\<lparr> DocInMemory_f := True \<rparr>)"

definition Goroutines :: "go_int \<Rightarrow> ModelOption" where
  "Goroutines v = (\<lambda>opts. opts\<lparr> Goroutines_f := v \<rparr>)"

definition Dim :: "go_int \<Rightarrow> ModelOption" where
  "Dim v = (\<lambda>opts. opts\<lparr> Dim_f := v \<rparr>)"

definition Initlr :: "float64 \<Rightarrow> ModelOption" where
  "Initlr v = (\<lambda>opts. opts\<lparr> Initlr_f := v \<rparr>)"

definition Iter :: "go_int \<Rightarrow> ModelOption" where
  "Iter v = (\<lambda>opts. opts\<lparr> Iter_f := v \<rparr>)"

definition MaxCount :: "go_int \<Rightarrow> ModelOption" where
  "MaxCount v = (\<lambda>opts. opts\<lparr> MaxCount_f := v \<rparr>)"

definition MinCount :: "go_int \<Rightarrow> ModelOption" where
  "MinCount v = (\<lambda>opts. opts\<lparr> MinCount_f := v \<rparr>)"

definition NegativeSampleSize :: "go_int \<Rightarrow> ModelOption" where
  "NegativeSampleSize v = (\<lambda>opts. opts\<lparr> NegativeSampleSize_f := v \<rparr>)"

definition Relation :: "RelationType \<Rightarrow> ModelOption" where
  "Relation typ = (\<lambda>opts. opts\<lparr> RelationType_f := typ \<rparr>)"

definition Smooth :: "float64 \<Rightarrow> ModelOption" where
  "Smooth v = (\<lambda>opts. opts\<lparr> Smooth_f := v \<rparr>)"

definition SubsampleThreshold :: "float64 \<Rightarrow> ModelOption" where
  "SubsampleThreshold v = (\<lambda>opts. opts\<lparr> SubsampleThreshold_f := v \<rparr>)"

definition Theta :: "float64 \<Rightarrow> ModelOption" where
  "Theta v = (\<lambda>opts. opts\<lparr> Theta_f := v \<rparr>)"

definition ToLower :: ModelOption where
  "ToLower = (\<lambda>opts. opts\<lparr> ToLower_f := True \<rparr>)"

definition Verbose :: ModelOption where
  "Verbose = (\<lambda>opts. opts\<lparr> Verbose_f := True \<rparr>)"

definition Window :: "go_int \<Rightarrow> ModelOption" where
  "Window v = (\<lambda>opts. opts\<lparr> Window_f := v \<rparr>)"

text \<open>
  A call of one of the sixteen exported builders, with its argument, and the
  \<open>ModelOption\<close> that the call returns. The datatype only names the calls, so that a
  statement can range over every builder of the file.
\<close>

datatype builder_call =
    Call_BatchSize go_int
  | Call_DocInMemory
  | Call_Goroutines go_int
  | Call_Dim go_int
  | Call_Initlr float64
  | Call_Iter go_int
  | Call_MaxCount go_int
  | Call_MinCount go_int
  | Call_NegativeSampleSize go_int
  | Call_Relation RelationType
  | Call_Smooth float64
  | Call_SubsampleThreshold float64
  | Call_Theta float64
  | Call_ToLower
  | Call_Verbose
  | Call_Window go_int

fun the_option :: "builder_call \<Rightarrow> ModelOption" where
  "the_option (Call_BatchSize v) = BatchSize v"
| "the_option Call_DocInMemory = DocInMemory"
| "the_option (Call_Goroutines v) = Goroutines v"
| "the_option (Call_Dim v) = Dim v"
| "the_option (Call_Initlr v) = Initlr v"
| "the_option (Call_Iter v) = Iter v"
| "the_option (Call_MaxCount v) = MaxCount v"
| "the_option (Call_MinCount v) = MinCount v"
| "the_option (Call_NegativeSampleSize v) = NegativeSampleSize v"
| "the_option (Call_Relation typ) = Relation typ"
| "the_option (Call_Smooth v) = Smooth v"
| "the_option (Call_SubsampleThreshold v) = SubsampleThreshold v"
| "the_option (Call_Theta v) = Theta v"
| "the_option Call_ToLower = ToLower"
| "the_option Call_Verbose = Verbose"
| "the_option (Call_Window v) = Window v"

subsection \<open>Fields of Options as addressable locations\<close>

text \<open>
  \<open>LoadForCmd\<close> passes the addresses \<open>&opts.BatchSize\<close>, \<open>&opts.Dim\<close>, ... to the flag
  registrar. An address of a field is a name of the field, typed as the Go pointer is:
  \<open>*int\<close>, \<open>*bool\<close>, \<open>*float64\<close> and the one \<open>*RelationType\<close>.
\<close>

datatype int_ptr =
  P_BatchSize | P_Dim | P_Goroutines | P_Iter | P_MaxCount | P_MinCount
  | P_NegativeSampleSize | P_Window

datatype bool_ptr = P_DocInMemory | P_ToLower | P_Verbose

datatype float64_ptr = P_Initlr | P_Smooth | P_SubsampleThreshold | P_Theta

datatype field =
  IntField int_ptr | BoolField bool_ptr | Float64Field float64_ptr | RelationTypeField

fun load_int :: "int_ptr \<Rightarrow> Options \<Rightarrow> go_int" where
  "load_int P_BatchSize opts = BatchSize_f opts"
| "load_int P_Dim opts = Dim_f opts"
| "load_int P_Goroutines opts = Goroutines_f opts"
| "load_int P_Iter opts = Iter_f opts"
| "load_int P_MaxCount opts = MaxCount_f opts"
| "load_int P_MinCount opts = MinCount_f opts"
| "load_int P_NegativeSampleSize opts = NegativeSampleSize_f opts"
| "load_int P_Window opts = Window_f opts"

fun store_int :: "int_ptr \<Rightarrow> go_int \<Rightarrow> Options \<Rightarrow> Options" where
  "store_int P_BatchSize v opts = opts\<lparr> BatchSize_f := v \<rparr>"
| "store_int P_Dim v opts = opts\<lparr> Dim_f := v \<rparr>"
| "store_int P_Goroutines v opts = opts\<lparr> Goroutines_f := v \<rparr>"
| "store_int P_Iter v opts = opts\<lparr> Iter_f := v \<rparr>"
| "store_int P_MaxCount v opts = opts\<lparr> MaxCount_f := v \<rparr>"
| "store_int P_MinCount v opts = opts\<lparr> MinCount_f := v \<rparr>"
| "store_int P_NegativeSampleSize v opts = opts\<lparr> NegativeSampleSize_f := v \<rparr>"
| "store_int P_Window v opts = opts\<lparr> Window_f := v \<rparr>"

fun load_bool :: "bool_ptr \<Rightarrow> Options \<Rightarrow> bool" where
  "load_bool P_DocInMemory opts = DocInMemory_f opts"
| "load_bool P_ToLower opts = ToLower_f opts"
| "load_bool P_Verbose opts = Verbose_f opts"

fun store_bool :: "bool_ptr \<Rightarrow> bool \<Rightarrow> Options \<Rightarrow> Options" where
  "store_bool P_DocInMemory v opts = opts\<lparr> DocInMemory_f := v \<rparr>"
| "store_bool P_ToLower v opts = opts\<lparr> ToLower_f := v \<rparr>"
| "store_bool P_Verbose v opts = opts\<lparr> Verbose_f := v \<rparr>"

fun load_float64 :: "float64_ptr \<Rightarrow> Options \<Rightarrow> float64" where
  "load_float64 P_Initlr opts = Initlr_f opts"
| "load_float64 P_Smooth opts = Smooth_f opts"
| "load_float64 P_SubsampleThreshold opts = SubsampleThreshold_f opts"
| "load_float64 P_Theta opts = Theta_f opts"

fun store_float64 :: "float64_ptr \<Rightarrow> float64 \<Rightarrow> Options \<Rightarrow> Options" where
  "store_float64 P_Initlr v opts = opts\<lparr> Initlr_f := v \<rparr>"
| "store_float64 P_Smooth v opts = opts\<lparr> Smooth_f := v \<rparr>"
| "store_float64 P_SubsampleThreshold v opts = opts\<lparr> SubsampleThreshold_f := v \<rparr>"
| "store_float64 P_Theta v opts = opts\<lparr> Theta_f := v \<rparr>"

text \<open>The content of a field, tagged with its type.\<close>

datatype field_val =
  IntVal go_int | BoolVal bool | Float64Val float64 | RelationTypeVal RelationType

fun field_value :: "field \<Rightarrow> Options \<Rightarrow> field_val" where
  "field_value (IntField p) opts = IntVal (load_int p opts)"
| "field_value (BoolField p) opts = BoolVal (load_bool p opts)"
| "field_value (Float64Field p) opts = Float64Val (load_float64 p opts)"
| "field_value RelationTypeField opts = RelationTypeVal (RelationType_f opts)"

text \<open>The sixteen fields, in the order of the struct declaration.\<close>

definition all_fields :: "field list" where
  "all_fields =
     [IntField P_BatchSize, IntField P_Dim, BoolField P_DocInMemory, IntField P_Goroutines,
      Float64Field P_Initlr, IntField P_Iter, IntField P_MaxCount, IntField P_MinCount,
      IntField P_NegativeSampleSize, RelationTypeField, Float64Field P_Smooth,
      Float64Field P_SubsampleThreshold, Float64Field P_Theta, BoolField P_ToLower,
      BoolField P_Verbose, IntField P_Window]"

text \<open>The field that the body of a builder's closure assigns to.\<close>

fun target :: "builder_call \<Rightarrow> field" where
  "target (Call_BatchSize v) = IntField P_BatchSize"
| "target Call_DocInMemory = BoolField P_DocInMemory"
| "target (Call_Goroutines v) = IntField P_Goroutines"
| "target (Call_Dim v) = IntField P_Dim"
| "target (Call_Initlr v) = Float64Field P_Initlr"
| "target (Call_Iter v) = IntField P_Iter"
| "target (Call_MaxCount v) = IntField P_MaxCount"
| "target (Call_MinCount v) = IntField P_MinCount"
| "target (Call_NegativeSampleSize v) = IntField P_NegativeSampleSize"
| "target (Call_Relation typ) = RelationTypeField"
| "target (Call_Smooth v) = Float64Field P_Smooth"
| "target (Call_SubsampleThreshold v) = Float64Field P_SubsampleThreshold"
| "target (Call_Theta v) = Float64Field P_Theta"
| "target Call_ToLower = BoolField P_ToLower"
| "target Call_Verbose = BoolField P_Verbose"
| "target (Call_Window v) = IntField P_Window"

subsection \<open>Applying a sequence of options\<close>

text \<open>
  Modelled from the spec: the loop that applies an ordered sequence of options to a
  configuration. options.go declares \<open>ModelOption\<close> and the builders; the caller that
  runs through a slice of options and calls each one on the same \<open>*Options\<close> is not in
  this file. The spec: "given a base Configuration and an ordered sequence of Options,
  applying them in sequence".
\<close>

fun apply_options :: "ModelOption list \<Rightarrow> Options \<Rightarrow> Options" where
  "apply_options [] opts = opts"
| "apply_options (fn # fns) opts = apply_options fns (fn opts)"

subsection \<open>The flag registrar and LoadForCmd\<close>

text \<open>
  \<open>cmd.Flags()\<close> is the flag set of the external registrar (cobra/pflag), which is not
  part of this repository. A registered flag is recorded with what the registration call
  passes: its name, its shorthand (the empty string when the call has none), its usage
  text, the variable it is bound to and its default.
\<close>

record flag =
  Name :: string
  Shorthand :: string
  Usage :: string
  Value :: field
  DefValue :: field_val

type_synonym cmd_state = "flag list \<times> Options"

text \<open>
  The registrar refuses a flag by panicking: when a flag of that name is already in the
  flag set, when the shorthand has more than one character, and when the shorthand is
  already in use. A panic ends the call of \<open>LoadForCmd\<close>; it is the \<open>Inl\<close> result. Names
  are compared as they are (no normalisation function is installed on the flag set).
\<close>

datatype panic =
  FlagRedefined string | ShorthandTooLong string | ShorthandRedefined string

definition AddFlag :: "flag \<Rightarrow> flag list \<Rightarrow> panic + flag list" where
  "AddFlag fl fs =
     (if Name fl \<in> set (map Name fs) then Inl (FlagRedefined (Name fl))
      else if Shorthand fl = '''' then Inr (fs @ [fl])
      else if 1 < length (Shorthand fl) then Inl (ShorthandTooLong (Shorthand fl))
      else if Shorthand fl \<in> set (map Shorthand fs)
        then Inl (ShorthandRedefined (Shorthand fl))
      else Inr (fs @ [fl]))"

text \<open>
  The typed registrations (\<open>IntVar\<close>, \<open>IntVarP\<close>, \<open>BoolVar\<close>, \<open>Float64Var\<close>) take the default
  as an argument, store it into the bound variable and add the flag. \<open>Var\<close> binds a custom
  value, here always \<open>&opts.RelationType\<close>, and takes no default argument: the registrar
  records as default what the value's \<open>String()\<close> returns at registration (the spec: the
  field is bound through the enum's Set and String operations so that the parser can print
  its current/default value).
\<close>

type_synonym registration = "cmd_state \<Rightarrow> panic + cmd_state"

definition IntVarP :: "int_ptr \<Rightarrow> string \<Rightarrow> string \<Rightarrow> go_int \<Rightarrow> string \<Rightarrow> registration" where
  "IntVarP p name shorthand v usage = (\<lambda>(fs, opts).
     (case AddFlag \<lparr> Name = name, Shorthand = shorthand, Usage = usage,
                      Value = IntField p, DefValue = IntVal v \<rparr> fs of
        Inl e \<Rightarrow> Inl e
      | Inr fs' \<Rightarrow> Inr (fs', store_int p v opts)))"

definition IntVar :: "int_ptr \<Rightarrow> string \<Rightarrow> go_int \<Rightarrow> string \<Rightarrow> registration" where
  "IntVar p name v usage = IntVarP p name '''' v usage"

definition BoolVar :: "bool_ptr \<Rightarrow> string \<Rightarrow> bool \<Rightarrow> string \<Rightarrow> registration" where
  "BoolVar p name v usage = (\<lambda>(fs, opts).
     (case AddFlag \<lparr> Name = name, Shorthand = '''', Usage = usage,
                      Value = BoolField p, DefValue = BoolVal v \<rparr> fs of
        Inl e \<Rightarrow> Inl e
      | Inr fs' \<Rightarrow> Inr (fs', store_bool p v opts)))"

definition Float64Var :: "float64_ptr \<Rightarrow> string \<Rightarrow> float64 \<Rightarrow> string \<Rightarrow> registration" where
  "Float64Var p name v usage = (\<lambda>(fs, opts).
     (case AddFlag \<lparr> Name = name, Shorthand = '''', Usage = usage,
                      Value = Float64Field p, DefValue = Float64Val v \<rparr> fs of
        Inl e \<Rightarrow> Inl e
      | Inr fs' \<Rightarrow> Inr (fs', store_float64 p v opts)))"

definition Var :: "string \<Rightarrow> string \<Rightarrow> registration" where
  "Var name usage = (\<lambda>(fs, opts).
     (case RelationType_String (RelationType_f opts) of (s, t') \<Rightarrow>
        (case AddFlag \<lparr> Name = name, Shorthand = '''', Usage = usage,
                         Value = RelationTypeField, DefValue = RelationTypeVal s \<rparr> fs of
           Inl e \<Rightarrow> Inl e
         | Inr fs' \<Rightarrow> Inr (fs', opts\<lparr> RelationType_f := t' \<rparr>))))"

text \<open>Statements one after the other: the first panic ends the sequence.\<close>

fun in_sequence :: "registration list \<Rightarrow> registration" where
  "in_sequence [] s = Inr s"
| "in_sequence (r # rs) s = (case r s of Inl e \<Rightarrow> Inl e | Inr s' \<Rightarrow> in_sequence rs s')"

definition LoadForCmd :: "pkg_vars \<Rightarrow> registration" where
  "LoadForCmd g =
     in_sequence
       [IntVar P_BatchSize ''batch'' (defaultBatchSize g) ''batch size to train'',
        IntVarP P_Dim ''dim'' ''d'' (defaultDim g) ''dimension for word vector'',
        IntVar P_Goroutines ''goroutines'' (defaultGoroutines g) ''number of goroutine'',
        BoolVar P_DocInMemory ''in-memory'' (defaultDocInMemory g)
          ''whether to store the doc in memory'',
        Float64Var P_Initlr ''initlr'' (defaultInitlr g) ''initial learning rate'',
        IntVar P_Iter ''iter'' (defaultIter g) ''number of iteration'',
        IntVar P_MaxCount ''max-count'' (defaultMaxCount g) ''upper limit to filter words'',
        IntVar P_MinCount ''min-count'' (defaultMinCount g) ''lower limit to filter words'',
        IntVar P_NegativeSampleSize ''sample'' (defaultNegativeSampleSize g)
          ''negative sample size'',
        Var ''rel''
          (''relation type for co-occurrence words. One of '' @
           PPMI @ ''|'' @ PMI @ ''|'' @ Collocation @ ''|'' @ LogCollocation),
        Float64Var P_Smooth ''smooth'' (defaultSmooth g)
          ''smoothing value for co-occurence value'',
        Float64Var P_SubsampleThreshold ''threshold'' (defaultSubsampleThreshold g)
          ''threshold for subsampling'',
        Float64Var P_Theta ''theta'' (defaultTheta g)
          ''lower limit of learning rate (lr >= initlr * theta)'',
        BoolVar P_ToLower ''to-lower'' (defaultToLower g)
          ''whether the words on corpus convert to lowercase or not'',
        BoolVar P_Verbose ''verbose'' (defaultVerbose g) ''verbose mode'',
        IntVarP P_Window ''window'' ''w'' (defaultWindow g) ''context window size'']"

text \<open>
  The flag set that \<open>LoadForCmd\<close> is called on holds none of the sixteen names and
  neither of the two shorthands that \<open>LoadForCmd\<close> registers.
\<close>

definition unclaimed :: "flag list \<Rightarrow> bool" where
  "unclaimed fs =
     (list_all (\<lambda>n. n \<notin> set (map Name fs))
        [''batch'', ''dim'', ''goroutines'', ''in-memory'', ''initlr'', ''iter'',
         ''max-count'', ''min-count'', ''sample'', ''rel'', ''smooth'', ''threshold'',
         ''theta'', ''to-lower'', ''verbose'', ''window'']
      \<and> list_all (\<lambda>s. s \<notin> set (map Shorthand fs)) [''d'', ''w''])"

text \<open>The flags bound to a field, and the default recorded for the first of them.\<close>

definition flags_of :: "field \<Rightarrow> flag list \<Rightarrow> flag list" where
  "flags_of f fs = filter (\<lambda>fl. Value fl = f) fs"

definition registered_default :: "field \<Rightarrow> flag list \<Rightarrow> field_val option" where
  "registered_default f fs = map_option DefValue (find (\<lambda>fl. Value fl = f) fs)"

text \<open>
  The flags that one call of \<open>LoadForCmd\<close> adds to an empty flag set, and the
  configuration that the call leaves behind.
\<close>

definition new_flags :: "pkg_vars \<Rightarrow> Options \<Rightarrow> flag list" where
  "new_flags g opts = (case LoadForCmd g ([], opts) of Inl e \<Rightarrow> [] | Inr s \<Rightarrow> fst s)"

definition bound_Options :: "pkg_vars \<Rightarrow> Options \<Rightarrow> Options" where
  "bound_Options g opts =
     (DefaultOptions g)\<lparr> RelationType_f := snd (RelationType_String (RelationType_f opts)) \<rparr>"

section \<open>Properties\<close>

lemmas token_defs =
  PPMI_def PMI_def Collocation_def LogCollocation_def defaultRelationType_def

lemmas builder_defs =
  BatchSize_def DocInMemory_def Goroutines_def Dim_def Initlr_def Iter_def MaxCount_def
  MinCount_def NegativeSampleSize_def Relation_def Smooth_def SubsampleThreshold_def
  Theta_def ToLower_def Verbose_def Window_def

subsection \<open>The concurrency default\<close>

text \<open>
  C1 (as stated, refuted). The claim: every call of \<open>DefaultOptions\<close> yields in
  \<open>Goroutines\<close> the processing-unit count that the host reports at the time of that call,
  resolved at call time and not captured at program load. In the code \<open>DefaultOptions\<close>
  copies the package variable \<open>defaultGoroutines\<close>, whose initialiser \<open>runtime.NumCPU()\<close>
  ran once at package initialisation. In a process loaded while the host reported 4 units
  and called after the host has come to report 8, the call yields 4.
\<close>

theorem DefaultOptions_Goroutines_not_call_time:
  "Goroutines_f (call_DefaultOptions (host_change 8 (program_load 4)))
     \<noteq> host_cpus (host_change 8 (program_load 4))"
  by (simp add: call_DefaultOptions_def host_change_def program_load_def DefaultOptions_def
      pkg_init_def)

text \<open>
  C1 (amended). \<open>DefaultOptions\<close> yields in \<open>Goroutines\<close> the value of the package
  variable \<open>defaultGoroutines\<close>: the count that \<open>runtime.NumCPU()\<close> returned when the
  package was initialised at program load. Every call returns that captured value,
  whatever the host reports at the time of the call.
\<close>

theorem DefaultOptions_Goroutines_fixed_at_load:
  "Goroutines_f (DefaultOptions g) = defaultGoroutines g
   \<and> Goroutines_f (call_DefaultOptions (program_load n)) = n
   \<and> Goroutines_f (call_DefaultOptions (host_change m (program_load n))) = n"
  by (simp add: call_DefaultOptions_def host_change_def program_load_def DefaultOptions_def
      pkg_init_def)

subsection \<open>The relation type\<close>

text \<open>
  C2. For every string \<open>s\<close> outside the four legal tokens and every prior value \<open>v\<close> of the
  enum, \<open>Set(s)\<close> returns the error whose message is
  \<open>invalid relation type: s not in ppmi|pmi|co|logco\<close> (it names \<open>s\<close> and lists the four
  tokens in that order) and leaves the enum at \<open>v\<close>; for every string among the four
  tokens, \<open>Set\<close> returns no error.
\<close>

theorem Set_rejects_unknown_token:
  "(s \<notin> {''ppmi'', ''pmi'', ''co'', ''logco''} \<longrightarrow>
      RelationType_Set s v =
        (Some (Errorf (''invalid relation type: '' @ s @ '' not in ppmi|pmi|co|logco'')), v))
   \<and> (s \<in> {''ppmi'', ''pmi'', ''co'', ''logco''} \<longrightarrow> fst (RelationType_Set s v) = None)"
  by (simp add: RelationType_Set_def invalidRelationTypeError_def token_defs)

text \<open>
  A case variant, a partial match and the empty string are rejected with the prior value
  kept; a legal token is accepted.
\<close>

theorem Set_rejects_unknown_token_witness:
  "RelationType_Set ''PPMI'' ''pmi'' =
     (Some (Errorf ''invalid relation type: PPMI not in ppmi|pmi|co|logco''), ''pmi'')
   \<and> RelationType_Set ''pp'' ''co'' =
     (Some (Errorf ''invalid relation type: pp not in ppmi|pmi|co|logco''), ''co'')
   \<and> RelationType_Set '''' ''logco'' =
     (Some (Errorf ''invalid relation type:  not in ppmi|pmi|co|logco''), ''logco'')
   \<and> fst (RelationType_Set ''logco'' ''pmi'') = None"
  using Set_rejects_unknown_token [of "''PPMI''" "''pmi''"]
    Set_rejects_unknown_token [of "''pp''" "''co''"]
    Set_rejects_unknown_token [of "''''" "''logco''"]
    Set_rejects_unknown_token [of "''logco''" "''pmi''"]
  by simp

text \<open>
  C3. For each of the four legal tokens \<open>t\<close> and every prior value of the enum, \<open>Set(t)\<close>
  returns no error and \<open>String()\<close> on the enum afterwards returns exactly \<open>t\<close> (and leaves
  it at \<open>t\<close>); conversely, parsing what \<open>String()\<close> renders for the enum value \<open>t\<close> gives \<open>t\<close>
  back.
\<close>

theorem Set_String_round_trip:
  assumes "t \<in> {''ppmi'', ''pmi'', ''co'', ''logco''}"
  shows "fst (RelationType_Set t v) = None
     \<and> RelationType_String (snd (RelationType_Set t v)) = (t, t)
     \<and> RelationType_Set (fst (RelationType_String t)) v = (None, t)"
  using assms
  by (auto simp add: RelationType_Set_def RelationType_String_def Let_def token_defs)

theorem Set_String_round_trip_witness:
  "fst (RelationType_String (snd (RelationType_Set ''ppmi'' ''co''))) = ''ppmi''
   \<and> fst (RelationType_String (snd (RelationType_Set ''pmi'' ''''))) = ''pmi''
   \<and> fst (RelationType_String (snd (RelationType_Set ''co'' ''ppmi''))) = ''co''
   \<and> fst (RelationType_String (snd (RelationType_Set ''logco'' ''bogus''))) = ''logco''"
  using Set_String_round_trip [of "''ppmi''" "''co''"]
    Set_String_round_trip [of "''pmi''" "''''"]
    Set_String_round_trip [of "''co''" "''ppmi''"]
    Set_String_round_trip [of "''logco''" "''bogus''"]
  by simp

text \<open>
  C4. \<open>String()\<close> on an enum that holds the empty value returns \<open>ppmi\<close> and leaves the
  receiver at \<open>ppmi\<close>: the receiver is then in the state that \<open>Set("ppmi")\<close> leaves it in
  from any prior value, so every later \<open>String()\<close> and \<open>Set\<close> gives the same result and
  state as after \<open>Set("ppmi")\<close>.
\<close>

theorem String_unset_self_defaults:
  "RelationType_String '''' = (''ppmi'', ''ppmi'')
   \<and> snd (RelationType_String '''') = snd (RelationType_Set ''ppmi'' v)
   \<and> RelationType_String (snd (RelationType_String '''')) =
       RelationType_String (snd (RelationType_Set ''ppmi'' v))
   \<and> RelationType_Set s (snd (RelationType_String '''')) =
       RelationType_Set s (snd (RelationType_Set ''ppmi'' v))"
  by (simp add: RelationType_Set_def RelationType_String_def Let_def token_defs)

text \<open>
  C10. \<open>Type()\<close> equals \<open>String()\<close> on every receiver state, in the string returned and in
  the state the receiver is left in; on the empty value it returns \<open>ppmi\<close> and leaves the
  receiver at \<open>ppmi\<close>.
\<close>

theorem Type_equals_String:
  "RelationType_Type t = RelationType_String t
   \<and> RelationType_Type '''' = (''ppmi'', ''ppmi'')"
  by (simp add: RelationType_Type_def RelationType_String_def Let_def token_defs)

subsection \<open>The builders\<close>

text \<open>The field model covers the struct: sixteen fields, which determine an \<open>Options\<close>.\<close>

lemma all_fields_complete: "f \<in> set all_fields"
proof (cases f)
  case (IntField p)
  then show ?thesis by (cases p; simp add: all_fields_def)
next
  case (BoolField p)
  then show ?thesis by (cases p; simp add: all_fields_def)
next
  case (Float64Field p)
  then show ?thesis by (cases p; simp add: all_fields_def)
next
  case RelationTypeField
  then show ?thesis by (simp add: all_fields_def)
qed

lemma Options_eq_by_fields:
  assumes "\<forall>f \<in> set all_fields. field_value f a = field_value f b"
  shows "a = b"
  using assms by (cases a; cases b) (simp add: all_fields_def)

lemma apply_options_append:
  "apply_options (fns @ fns') c = apply_options fns' (apply_options fns c)"
  by (induction fns arbitrary: c) simp_all

lemma same_target_override:
  "target a = target b \<Longrightarrow> the_option b (the_option a c) = the_option b c"
  by (cases a; cases b; simp add: builder_defs)

lemma different_target_commute:
  "target a \<noteq> target b \<Longrightarrow> the_option a (the_option b c) = the_option b (the_option a c)"
  by (cases a; cases b; simp add: builder_defs)

text \<open>
  A call that a later call on the same field follows can be dropped from the sequence:
  it commutes with the calls on other fields in between, and a call on the same field
  overwrites it.
\<close>

lemma overridden_call_dropped:
  "target a = target b \<Longrightarrow>
     apply_options (map the_option (a # ys @ [b])) c =
     apply_options (map the_option (ys @ [b])) c"
proof (induction ys arbitrary: c)
  case Nil
  then show ?case by (simp add: same_target_override)
next
  case (Cons y ys)
  show ?case
  proof (cases "target a = target y")
    case True
    then show ?thesis by (simp add: same_target_override)
  next
    case False
    have "apply_options (map the_option (a # (y # ys) @ [b])) c
            = apply_options (map the_option (a # ys @ [b])) (the_option y c)"
      using different_target_commute [OF False] by simp
    also have "\<dots> = apply_options (map the_option (ys @ [b])) (the_option y c)"
      using Cons.IH [OF Cons.prems] .
    finally show ?thesis by simp
  qed
qed

text \<open>
  C5. Applying a sequence of options to a configuration \<open>c\<close> performs the mutations one
  after the other, in the order of the sequence: the empty sequence leaves \<open>c\<close> as it is,
  and a sequence followed by one more option gives that option applied to the result of
  the sequence. A later option overrides an earlier one on the same field: when a call
  \<open>b\<close> on the field of \<open>a\<close> comes after \<open>a\<close>, the result is the one of the sequence without
  \<open>a\<close>. In particular \<open>[Dim(50), Dim(100)]\<close> on a default configuration gives dimension 100.
\<close>

theorem apply_options_in_order:
  "apply_options [] c = c
   \<and> apply_options (fns @ [fn]) c = fn (apply_options fns c)
   \<and> (target a = target b \<longrightarrow>
        apply_options (map the_option (xs @ [a] @ ys @ [b] @ zs)) c =
        apply_options (map the_option (xs @ ys @ [b] @ zs)) c)
   \<and> Dim_f (apply_options [Dim 50, Dim 100] (DefaultOptions g)) = 100"
proof -
  have "apply_options (map the_option (xs @ [a] @ ys @ [b] @ zs)) c =
        apply_options (map the_option (xs @ ys @ [b] @ zs)) c" if t: "target a = target b"
  proof -
    have "apply_options (map the_option (xs @ [a] @ ys @ [b] @ zs)) c
          = apply_options (map the_option zs)
              (apply_options (map the_option (a # ys @ [b]))
                 (apply_options (map the_option xs) c))"
      by (simp add: apply_options_append)
    also have "\<dots> = apply_options (map the_option zs)
              (apply_options (map the_option (ys @ [b]))
                 (apply_options (map the_option xs) c))"
      by (simp only: overridden_call_dropped [OF t])
    also have "\<dots> = apply_options (map the_option (xs @ ys @ [b] @ zs)) c"
      by (simp add: apply_options_append)
    finally show ?thesis .
  qed
  moreover have "Dim_f (apply_options [Dim 50, Dim 100] (DefaultOptions g)) = 100"
    by (simp add: Dim_def)
  ultimately show ?thesis
    by (simp add: apply_options_append)
qed

theorem apply_options_in_order_witness:
  "target (Call_Dim 50) = target (Call_Dim 100)
   \<and> apply_options
       (map the_option [Call_Verbose, Call_Dim 50, Call_Iter 3, Call_Dim 100, Call_ToLower])
       zero_Options
     = apply_options (map the_option [Call_Verbose, Call_Iter 3, Call_Dim 100, Call_ToLower])
       zero_Options
   \<and> Dim_f (apply_options
       (map the_option [Call_Verbose, Call_Dim 50, Call_Iter 3, Call_Dim 100, Call_ToLower])
       zero_Options) = 100"
  using apply_options_in_order [of zero_Options "[]" id "Call_Dim 50" "Call_Dim 100"
      "[Call_Verbose]" "[Call_Iter 3]" "[Call_ToLower]" "pkg_init 1"]
  by (simp add: builder_defs zero_Options_def)

text \<open>
  C6. For every configuration \<open>c\<close> and every builder call \<open>b\<close>, value-taking or
  zero-argument, the configuration after applying \<open>b\<close> has in every field other than the
  target field of \<open>b\<close> the value that \<open>c\<close> has there.
\<close>

theorem builder_frame:
  assumes "f \<noteq> target b"
  shows "field_value f (the_option b c) = field_value f c"
proof (cases f)
  case (IntField p)
  with assms show ?thesis by (cases b; cases p; simp add: builder_defs)
next
  case (BoolField p)
  with assms show ?thesis by (cases b; cases p; simp add: builder_defs)
next
  case (Float64Field p)
  with assms show ?thesis by (cases b; cases p; simp add: builder_defs)
next
  case RelationTypeField
  with assms show ?thesis by (cases b; simp add: builder_defs)
qed

theorem builder_frame_witness:
  "IntField P_Dim \<noteq> target (Call_BatchSize 7)
   \<and> field_value (IntField P_Dim) (the_option (Call_BatchSize 7) zero_Options) = IntVal 0
   \<and> BoolField P_Verbose \<noteq> target Call_ToLower
   \<and> field_value (BoolField P_Verbose) (the_option Call_ToLower zero_Options) = BoolVal False"
  using builder_frame [of "IntField P_Dim" "Call_BatchSize 7" zero_Options]
    builder_frame [of "BoolField P_Verbose" Call_ToLower zero_Options]
  by (simp add: zero_Options_def)

text \<open>
  C7. \<open>DocInMemory\<close>, \<open>ToLower\<close> and \<open>Verbose\<close> take no argument and leave their field true
  on every configuration; and no builder call sets one of the three fields to false: a
  field among them that is true before a builder is applied is true after it.
\<close>

theorem enable_only_builders:
  "DocInMemory_f (DocInMemory c) \<and> ToLower_f (ToLower c) \<and> Verbose_f (Verbose c)
   \<and> (DocInMemory_f c \<longrightarrow> DocInMemory_f (the_option b c))
   \<and> (ToLower_f c \<longrightarrow> ToLower_f (the_option b c))
   \<and> (Verbose_f c \<longrightarrow> Verbose_f (the_option b c))"
  by (cases b; simp add: builder_defs)

theorem enable_only_builders_witness:
  "DocInMemory_f (DocInMemory (ToLower (Verbose zero_Options)))
   \<and> ToLower_f (DocInMemory (ToLower (Verbose zero_Options)))
   \<and> Verbose_f (DocInMemory (ToLower (Verbose zero_Options)))
   \<and> DocInMemory_f (the_option (Call_Dim 3) (DocInMemory (ToLower (Verbose zero_Options))))
   \<and> ToLower_f (the_option Call_Verbose (DocInMemory (ToLower (Verbose zero_Options))))
   \<and> Verbose_f (the_option (Call_Relation ''co'') (DocInMemory (ToLower (Verbose zero_Options))))"
  using enable_only_builders [of "ToLower (Verbose zero_Options)" "Call_Dim 3"]
    enable_only_builders [of "DocInMemory (ToLower (Verbose zero_Options))" "Call_Dim 3"]
    enable_only_builders [of "DocInMemory (ToLower (Verbose zero_Options))" Call_Verbose]
    enable_only_builders [of "DocInMemory (ToLower (Verbose zero_Options))" "Call_Relation ''co''"]
  by (simp add: builder_defs zero_Options_def)

text \<open>
  C8. No builder has an error result or a check on its argument: for every value, the
  configuration after applying the builder holds that value in the target field. A
  negative dimension is stored as it is, and \<open>Relation\<close> stores a value that \<open>Set\<close> rejects.
\<close>

theorem builders_store_verbatim:
  "BatchSize_f (BatchSize vi c) = vi
   \<and> Goroutines_f (Goroutines vi c) = vi
   \<and> Dim_f (Dim vi c) = vi
   \<and> Initlr_f (Initlr vf c) = vf
   \<and> Iter_f (Iter vi c) = vi
   \<and> MaxCount_f (MaxCount vi c) = vi
   \<and> MinCount_f (MinCount vi c) = vi
   \<and> NegativeSampleSize_f (NegativeSampleSize vi c) = vi
   \<and> RelationType_f (Relation typ c) = typ
   \<and> Smooth_f (Smooth vf c) = vf
   \<and> SubsampleThreshold_f (SubsampleThreshold vf c) = vf
   \<and> Theta_f (Theta vf c) = vf
   \<and> Window_f (Window vi c) = vi
   \<and> sint (Dim_f (Dim (- 1) c)) = - 1
   \<and> RelationType_f (Relation ''bogus'' c) = ''bogus''
   \<and> fst (RelationType_Set ''bogus'' t) \<noteq> None"
  by (simp add: builder_defs RelationType_Set_def token_defs)

subsection \<open>The flag binding\<close>

lemmas registrar_defs =
  IntVarP_def IntVar_def BoolVar_def Float64Var_def Var_def AddFlag_def

lemma LoadForCmd_on_unclaimed:
  assumes "unclaimed fs"
  shows "LoadForCmd g (fs, opts) =
     Inr (fs @
     [\<lparr> Name = ''batch'', Shorthand = '''', Usage = ''batch size to train'',
         Value = IntField P_BatchSize, DefValue = IntVal (defaultBatchSize g) \<rparr>,
      \<lparr> Name = ''dim'', Shorthand = ''d'', Usage = ''dimension for word vector'',
         Value = IntField P_Dim, DefValue = IntVal (defaultDim g) \<rparr>,
      \<lparr> Name = ''goroutines'', Shorthand = '''', Usage = ''number of goroutine'',
         Value = IntField P_Goroutines, DefValue = IntVal (defaultGoroutines g) \<rparr>,
      \<lparr> Name = ''in-memory'', Shorthand = '''', Usage = ''whether to store the doc in memory'',
         Value = BoolField P_DocInMemory, DefValue = BoolVal (defaultDocInMemory g) \<rparr>,
      \<lparr> Name = ''initlr'', Shorthand = '''', Usage = ''initial learning rate'',
         Value = Float64Field P_Initlr, DefValue = Float64Val (defaultInitlr g) \<rparr>,
      \<lparr> Name = ''iter'', Shorthand = '''', Usage = ''number of iteration'',
         Value = IntField P_Iter, DefValue = IntVal (defaultIter g) \<rparr>,
      \<lparr> Name = ''max-count'', Shorthand = '''', Usage = ''upper limit to filter words'',
         Value = IntField P_MaxCount, DefValue = IntVal (defaultMaxCount g) \<rparr>,
      \<lparr> Name = ''min-count'', Shorthand = '''', Usage = ''lower limit to filter words'',
         Value = IntField P_MinCount, DefValue = IntVal (defaultMinCount g) \<rparr>,
      \<lparr> Name = ''sample'', Shorthand = '''', Usage = ''negative sample size'',
         Value = IntField P_NegativeSampleSize,
         DefValue = IntVal (defaultNegativeSampleSize g) \<rparr>,
      \<lparr> Name = ''rel'', Shorthand = '''',
         Usage = ''relation type for co-occurrence words. One of ppmi|pmi|co|logco'',
         Value = RelationTypeField,
         DefValue = RelationTypeVal (fst (RelationType_String (RelationType_f opts))) \<rparr>,
      \<lparr> Name = ''smooth'', Shorthand = '''', Usage = ''smoothing value for co-occurence value'',
         Value = Float64Field P_Smooth, DefValue = Float64Val (defaultSmooth g) \<rparr>,
      \<lparr> Name = ''threshold'', Shorthand = '''', Usage = ''threshold for subsampling'',
         Value = Float64Field P_SubsampleThreshold,
         DefValue = Float64Val (defaultSubsampleThreshold g) \<rparr>,
      \<lparr> Name = ''theta'', Shorthand = '''',
         Usage = ''lower limit of learning rate (lr >= initlr * theta)'',
         Value = Float64Field P_Theta, DefValue = Float64Val (defaultTheta g) \<rparr>,
      \<lparr> Name = ''to-lower'', Shorthand = '''',
         Usage = ''whether the words on corpus convert to lowercase or not'',
         Value = BoolField P_ToLower, DefValue = BoolVal (defaultToLower g) \<rparr>,
      \<lparr> Name = ''verbose'', Shorthand = '''', Usage = ''verbose mode'',
         Value = BoolField P_Verbose, DefValue = BoolVal (defaultVerbose g) \<rparr>,
      \<lparr> Name = ''window'', Shorthand = ''w'', Usage = ''context window size'',
         Value = IntField P_Window, DefValue = IntVal (defaultWindow g) \<rparr>],
      bound_Options g opts)"
  using assms
  by (cases opts)
    (simp add: unclaimed_def LoadForCmd_def registrar_defs token_defs bound_Options_def
      DefaultOptions_def RelationType_String_def Let_def image_iff)

lemma unclaimed_Nil: "unclaimed []"
  by (simp add: unclaimed_def)

lemma new_flags_unfold:
  "new_flags g opts =
     [\<lparr> Name = ''batch'', Shorthand = '''', Usage = ''batch size to train'',
         Value = IntField P_BatchSize, DefValue = IntVal (defaultBatchSize g) \<rparr>,
      \<lparr> Name = ''dim'', Shorthand = ''d'', Usage = ''dimension for word vector'',
         Value = IntField P_Dim, DefValue = IntVal (defaultDim g) \<rparr>,
      \<lparr> Name = ''goroutines'', Shorthand = '''', Usage = ''number of goroutine'',
         Value = IntField P_Goroutines, DefValue = IntVal (defaultGoroutines g) \<rparr>,
      \<lparr> Name = ''in-memory'', Shorthand = '''', Usage = ''whether to store the doc in memory'',
         Value = BoolField P_DocInMemory, DefValue = BoolVal (defaultDocInMemory g) \<rparr>,
      \<lparr> Name = ''initlr'', Shorthand = '''', Usage = ''initial learning rate'',
         Value = Float64Field P_Initlr, DefValue = Float64Val (defaultInitlr g) \<rparr>,
      \<lparr> Name = ''iter'', Shorthand = '''', Usage = ''number of iteration'',
         Value = IntField P_Iter, DefValue = IntVal (defaultIter g) \<rparr>,
      \<lparr> Name = ''max-count'', Shorthand = '''', Usage = ''upper limit to filter words'',
         Value = IntField P_MaxCount, DefValue = IntVal (defaultMaxCount g) \<rparr>,
      \<lparr> Name = ''min-count'', Shorthand = '''', Usage = ''lower limit to filter words'',
         Value = IntField P_MinCount, DefValue = IntVal (defaultMinCount g) \<rparr>,
      \<lparr> Name = ''sample'', Shorthand = '''', Usage = ''negative sample size'',
         Value = IntField P_NegativeSampleSize,
         DefValue = IntVal (defaultNegativeSampleSize g) \<rparr>,
      \<lparr> Name = ''rel'', Shorthand = '''',
         Usage = ''relation type for co-occurrence words. One of ppmi|pmi|co|logco'',
         Value = RelationTypeField,
         DefValue = RelationTypeVal (fst (RelationType_String (RelationType_f opts))) \<rparr>,
      \<lparr> Name = ''smooth'', Shorthand = '''', Usage = ''smoothing value for co-occurence value'',
         Value = Float64Field P_Smooth, DefValue = Float64Val (defaultSmooth g) \<rparr>,
      \<lparr> Name = ''threshold'', Shorthand = '''', Usage = ''threshold for subsampling'',
         Value = Float64Field P_SubsampleThreshold,
         DefValue = Float64Val (defaultSubsampleThreshold g) \<rparr>,
      \<lparr> Name = ''theta'', Shorthand = '''',
         Usage = ''lower limit of learning rate (lr >= initlr * theta)'',
         Value = Float64Field P_Theta, DefValue = Float64Val (defaultTheta g) \<rparr>,
      \<lparr> Name = ''to-lower'', Shorthand = '''',
         Usage = ''whether the words on corpus convert to lowercase or not'',
         Value = BoolField P_ToLower, DefValue = BoolVal (defaultToLower g) \<rparr>,
      \<lparr> Name = ''verbose'', Shorthand = '''', Usage = ''verbose mode'',
         Value = BoolField P_Verbose, DefValue = BoolVal (defaultVerbose g) \<rparr>,
      \<lparr> Name = ''window'', Shorthand = ''w'', Usage = ''context window size'',
         Value = IntField P_Window, DefValue = IntVal (defaultWindow g) \<rparr>]"
  by (simp add: new_flags_def LoadForCmd_on_unclaimed [OF unclaimed_Nil])

lemma LoadForCmd_appends:
  "unclaimed fs \<Longrightarrow>
     LoadForCmd g (fs, opts) = Inr (fs @ new_flags g opts, bound_Options g opts)"
  by (simp add: LoadForCmd_on_unclaimed new_flags_unfold)

text \<open>
  A registration whose name is taken panics, and a panic or a success of one statement
  decides the sequence. So a call on a flag set that holds one of the names or shorthands
  panics, whichever statement meets the clash first.
\<close>

lemma LoadForCmd_panics:
  assumes "\<not> unclaimed fs"
  shows "\<exists>e. LoadForCmd g (fs, opts) = Inl e"
  using assms
  by (cases opts)
    (auto simp add: unclaimed_def LoadForCmd_def registrar_defs token_defs
      RelationType_String_def Let_def image_iff split: sum.splits)

lemma one_flag_per_field: "length (flags_of f (new_flags g opts)) = 1"
proof (cases f)
  case (IntField p)
  then show ?thesis by (cases p; simp add: new_flags_unfold flags_of_def)
next
  case (BoolField p)
  then show ?thesis by (cases p; simp add: new_flags_unfold flags_of_def)
next
  case (Float64Field p)
  then show ?thesis by (cases p; simp add: new_flags_unfold flags_of_def)
next
  case RelationTypeField
  then show ?thesis by (simp add: new_flags_unfold flags_of_def)
qed

lemma typed_defaults_match:
  assumes "f \<noteq> RelationTypeField"
  shows "registered_default f (new_flags g opts) = Some (field_value f (DefaultOptions g))"
proof (cases f)
  case (IntField p)
  then show ?thesis
    by (cases p; simp add: new_flags_unfold registered_default_def DefaultOptions_def)
next
  case (BoolField p)
  then show ?thesis
    by (cases p; simp add: new_flags_unfold registered_default_def DefaultOptions_def)
next
  case (Float64Field p)
  then show ?thesis
    by (cases p; simp add: new_flags_unfold registered_default_def DefaultOptions_def)
next
  case RelationTypeField
  with assms show ?thesis by simp
qed

lemma rel_default_is_String:
  "registered_default RelationTypeField (new_flags g opts) =
     Some (RelationTypeVal (fst (RelationType_String (RelationType_f opts))))"
  by (simp add: new_flags_unfold registered_default_def)

lemma shorthands_only_dim_window:
  "fl \<in> set (new_flags g opts) \<Longrightarrow>
     (Shorthand fl \<noteq> '''') = (Value fl = IntField P_Dim \<or> Value fl = IntField P_Window)"
  by (auto simp add: new_flags_unfold)

lemma dim_window_flags:
  "map (\<lambda>fl. (Name fl, Shorthand fl)) (flags_of (IntField P_Dim) (new_flags g opts)) =
     [(''dim'', ''d'')]"
  "map (\<lambda>fl. (Name fl, Shorthand fl)) (flags_of (IntField P_Window) (new_flags g opts)) =
     [(''window'', ''w'')]"
  by (simp_all add: new_flags_unfold flags_of_def)

text \<open>
  C9 (as stated, refuted). The claim: for every field, the default that \<open>LoadForCmd\<close>
  registers equals the value that \<open>DefaultOptions\<close> assigns to the field. The flag \<open>rel\<close>
  is registered through \<open>Var\<close>, with no default argument: its default is what \<open>String()\<close>
  returns on the \<open>RelationType\<close> of the configuration passed in. On a configuration whose
  relation type is already \<open>pmi\<close>, the default registered for \<open>rel\<close> is \<open>pmi\<close>, and
  \<open>DefaultOptions\<close> assigns \<open>ppmi\<close>.
\<close>

theorem LoadForCmd_rel_default_counterexample:
  "LoadForCmd (pkg_init 4) ([], zero_Options\<lparr> RelationType_f := ''pmi'' \<rparr>) =
     Inr (new_flags (pkg_init 4) (zero_Options\<lparr> RelationType_f := ''pmi'' \<rparr>),
          (DefaultOptions (pkg_init 4))\<lparr> RelationType_f := ''pmi'' \<rparr>)
   \<and> registered_default RelationTypeField
       (new_flags (pkg_init 4) (zero_Options\<lparr> RelationType_f := ''pmi'' \<rparr>))
     \<noteq> Some (field_value RelationTypeField (DefaultOptions (pkg_init 4)))"
  by (simp add: LoadForCmd_on_unclaimed [OF unclaimed_Nil] new_flags_unfold
      bound_Options_def registered_default_def RelationType_String_def Let_def
      DefaultOptions_def token_defs zero_Options_def)

text \<open>
  C9 (amended). On a flag set that holds none of the sixteen flag names nor the shorthands
  \<open>d\<close> and \<open>w\<close>, \<open>LoadForCmd\<close> appends sixteen flags, exactly one bound to each field of
  \<open>Options\<close>; on any other flag set the registrar panics and \<open>LoadForCmd\<close> does not return.
  For every field other than the relation type, the default registered is the value that
  \<open>DefaultOptions\<close> assigns to the field. The flag \<open>rel\<close> takes as default what \<open>String()\<close>
  returns on the relation type of the configuration passed in: that is the value of
  \<open>DefaultOptions\<close>, \<open>ppmi\<close>, when the field is empty or \<open>ppmi\<close>. Among the flags registered,
  only the ones bound to \<open>Dim\<close> and \<open>Window\<close> have a shorthand: \<open>dim\<close> has \<open>d\<close> and \<open>window\<close>
  has \<open>w\<close>.
\<close>

theorem LoadForCmd_registrations:
  "(unclaimed fs \<longrightarrow>
      LoadForCmd g (fs, opts) = Inr (fs @ new_flags g opts, bound_Options g opts))
   \<and> (\<not> unclaimed fs \<longrightarrow> (\<exists>e. LoadForCmd g (fs, opts) = Inl e))
   \<and> length (new_flags g opts) = length all_fields
   \<and> (\<forall>f. length (flags_of f (new_flags g opts)) = 1)
   \<and> (\<forall>f. f \<noteq> RelationTypeField \<longrightarrow>
         registered_default f (new_flags g opts) = Some (field_value f (DefaultOptions g)))
   \<and> registered_default RelationTypeField (new_flags g opts) =
         Some (RelationTypeVal (fst (RelationType_String (RelationType_f opts))))
   \<and> (RelationType_f opts = '''' \<or> RelationType_f opts = ''ppmi'' \<longrightarrow>
         registered_default RelationTypeField (new_flags g opts) =
           Some (field_value RelationTypeField (DefaultOptions g)))
   \<and> (\<forall>fl \<in> set (new_flags g opts).
         (Shorthand fl \<noteq> '''') = (Value fl = IntField P_Dim \<or> Value fl = IntField P_Window))
   \<and> map (\<lambda>fl. (Name fl, Shorthand fl)) (flags_of (IntField P_Dim) (new_flags g opts)) =
         [(''dim'', ''d'')]
   \<and> map (\<lambda>fl. (Name fl, Shorthand fl)) (flags_of (IntField P_Window) (new_flags g opts)) =
         [(''window'', ''w'')]"
proof -
  have len: "length (new_flags g opts) = length all_fields"
    by (simp add: new_flags_unfold all_fields_def)
  have rel: "registered_default RelationTypeField (new_flags g opts) =
           Some (field_value RelationTypeField (DefaultOptions g))"
    if "RelationType_f opts = '''' \<or> RelationType_f opts = ''ppmi''"
    using that
    by (auto simp add: rel_default_is_String RelationType_String_def Let_def
        DefaultOptions_def token_defs)
  show ?thesis
    by (intro conjI allI impI ballI;
        (rule LoadForCmd_appends LoadForCmd_panics one_flag_per_field len
           typed_defaults_match rel_default_is_String rel shorthands_only_dim_window
           dim_window_flags; assumption))
qed

text \<open>
  On the empty flag set and the zero configuration the call returns, and leaves the
  configuration at \<open>DefaultOptions\<close>; a second call on the resulting flag set panics at
  the first registration, and so does a call on a flag set where another flag has the
  shorthand \<open>d\<close>.
\<close>

theorem LoadForCmd_registrations_witness:
  "unclaimed []
   \<and> LoadForCmd (pkg_init 4) ([], zero_Options) =
       Inr (new_flags (pkg_init 4) zero_Options, DefaultOptions (pkg_init 4))
   \<and> \<not> unclaimed (new_flags (pkg_init 4) zero_Options)
   \<and> LoadForCmd (pkg_init 4) (new_flags (pkg_init 4) zero_Options, DefaultOptions (pkg_init 4)) =
       Inl (FlagRedefined ''batch'')
   \<and> LoadForCmd (pkg_init 4)
       ([\<lparr> Name = ''depth'', Shorthand = ''d'', Usage = '''', Value = IntField P_Iter,
            DefValue = IntVal 0 \<rparr>], zero_Options) =
       Inl (ShorthandRedefined ''d'')
   \<and> registered_default (IntField P_Dim) (new_flags (pkg_init 4) zero_Options) = Some (IntVal 10)
   \<and> registered_default (IntField P_Goroutines) (new_flags (pkg_init 4) zero_Options) =
       Some (IntVal 4)
   \<and> RelationType_f zero_Options = ''''
   \<and> registered_default RelationTypeField (new_flags (pkg_init 4) zero_Options) =
       Some (RelationTypeVal ''ppmi'')
   \<and> map Shorthand (new_flags (pkg_init 4) zero_Options) =
       ['''', ''d'', '''', '''', '''', '''', '''', '''', '''', '''', '''', '''', '''', '''', '''', ''w'']"
  using LoadForCmd_registrations [of "[]" "pkg_init 4" zero_Options]
    LoadForCmd_registrations [of "new_flags (pkg_init 4) zero_Options" "pkg_init 4"
      "DefaultOptions (pkg_init 4)"]
  by (simp add: new_flags_unfold unclaimed_def bound_Options_def LoadForCmd_def
      registrar_defs registered_default_def RelationType_String_def Let_def
      DefaultOptions_def token_defs zero_Options_def pkg_init_def)

end
